theory Spec2Isabelle
  imports Main
begin

section \<open>The execution tools of tools/basetool.py\<close>

text \<open>
  The module offers two tools: \<open>execute_code\<close> writes a piece of Python source to a file
  under the storage directory and runs it with the interpreter, \<open>execute_command\<close> runs a
  shell command behind the activation of a Conda environment. Both call
  \<^verbatim>\<open>subprocess.run\<close> at most once and relay what the child process printed.

  Everything outside the module is a parameter of the model. The operating system is a
  record of functions over a state of the file system whose type is left open: what
  \<^verbatim>\<open>open\<close>, \<^verbatim>\<open>write\<close> and \<^verbatim>\<open>print\<close> do there, whether they raise, and what
  a file holds afterwards is for the system to say, and nothing is assumed about it (a
  path may be a directory, a device that swallows what is written, a file that a creation
  mask made read-only). The machine that runs a child process is a second parameter.
  Python strings are opaque to the module (it only concatenates them), so they are
  modelled as \<open>string\<close>. A call of the logger raises nothing (the logging module does
  not propagate the errors of its handlers), so it is no branch of the control flow; in
  \<open>execute_code\<close>, where the claims are about a file, it is a step that may change the
  file system (the log may be a file). Exceptions are the instances of \<^verbatim>\<open>Exception\<close> that the calls of the standard
  library raise; an interrupt delivered from outside while a call runs is not part of
  the model, and neither is another process that changes the files during a call.
\<close>

subsection \<open>Exceptions\<close>

text \<open>
  An instance of a subclass of \<^verbatim>\<open>Exception\<close> raised by the standard library: the name
  of its class and the text \<^verbatim>\<open>str(e)\<close> gives.
\<close>

datatype py_error = PyError (err_class: string) (err_str: string)

text \<open>
  What \<^verbatim>\<open>subprocess.run(..., check=True)\<close> can raise: any of the above, or
  \<^verbatim>\<open>CalledProcessError(returncode, cmd, output, stderr)\<close>.
\<close>

datatype py_exception =
    Raised py_error
  | CalledProcessError int string string string

subsection \<open>The world the module runs in\<close>

text \<open>
  The calls into the operating system, over a state \<open>'f\<close> of the file system.
  \<^item> \<open>sys_open f path\<close> is \<^verbatim>\<open>open(path, 'w')\<close>: it raises or returns, and leaves a
    state (the file created or truncated, its permissions set from the creation mask).
  \<^item> \<open>sys_write f path text\<close> is writing the text to the file opened at the path and
    closing it: it raises or returns, and leaves a state (the text stored, or part of it,
    or nothing when the path is a device).
  \<^item> \<open>sys_print f t text\<close> is \<^verbatim>\<open>print(text)\<close> on the standard output of the module's
    own process at time \<open>t\<close>: it raises (the stream is closed or full, the text cannot be
    encoded) or returns, and leaves a state (the stream may be a file).
  \<^item> \<open>sys_log f t level text\<close> is a call of the logger at time \<open>t\<close>: it returns, and
    leaves a state (the log may be a file).
  \<^item> \<open>sys_read f path\<close> is what reading the file at the path yields in the state, if
    there is a file to read.
\<close>

record 'f kernel =
  sys_open :: "'f \<Rightarrow> string \<Rightarrow> (py_error + unit) \<times> 'f"
  sys_write :: "'f \<Rightarrow> string \<Rightarrow> string \<Rightarrow> (py_error + unit) \<times> 'f"
  sys_print :: "'f \<Rightarrow> nat \<Rightarrow> string \<Rightarrow> (py_error + unit) \<times> 'f"
  sys_log :: "'f \<Rightarrow> nat \<Rightarrow> string \<Rightarrow> string \<Rightarrow> 'f"
  sys_read :: "'f \<Rightarrow> string \<Rightarrow> string option"

text \<open>The effects of the module that the claims count.\<close>

datatype event =
    FileWrite string string
  | ChildCreated "string list"
  | Printed string

fun is_file_write :: "event \<Rightarrow> bool" where
  "is_file_write (FileWrite p s) = True"
| "is_file_write (ChildCreated argv) = False"
| "is_file_write (Printed s) = False"

fun is_child_created :: "event \<Rightarrow> bool" where
  "is_child_created (FileWrite p s) = False"
| "is_child_created (ChildCreated argv) = True"
| "is_child_created (Printed s) = False"

text \<open>
  How a call of \<^verbatim>\<open>subprocess.run\<close> ends: no child process came to be
  (\<^verbatim>\<open>Popen\<close> raised, for instance the executable is missing); or a child ran and
  reading or decoding its output raised; or the child exited with a return code, its
  standard output and its standard error. A child that ran leaves the file system it
  made.
\<close>

datatype 'f proc_outcome =
    SpawnError py_error
  | CaptureError py_error 'f
  | Exited int string string 'f

text \<open>
  The machine maps the file system, the time of the call and the argument vector to the
  outcome. The time stands for all the state a program cannot control and that differs
  between two runs (the clock, process identifiers, entropy).
\<close>

type_synonym 'f machine = "'f \<Rightarrow> nat \<Rightarrow> string list \<Rightarrow> 'f proc_outcome"

record 'f world =
  fs :: 'f
  environ :: "string \<rightharpoonup> string"
  clock :: nat
  log :: "event list"

record completed_process =
  returncode :: int
  stdout :: string
  stderr :: string

type_synonym py_dict = "(string \<times> string) list"

subsection \<open>The standard library, as far as the module calls it\<close>

text \<open>\<^verbatim>\<open>os.getenv(key, default)\<close>\<close>

definition getenv :: "(string \<rightharpoonup> string) \<Rightarrow> string \<Rightarrow> string \<Rightarrow> string" where
  "getenv env key dflt = (case env key of None \<Rightarrow> dflt | Some v \<Rightarrow> v)"

text \<open>
  \<^verbatim>\<open>os.path.join(a, b)\<close> of posixpath: an absolute \<open>b\<close> replaces \<open>a\<close>; otherwise
  \<open>b\<close> is appended, after a separator unless \<open>a\<close> is empty or ends with one.
\<close>

definition startswith_sep :: "string \<Rightarrow> bool" where
  "startswith_sep b = (case b of [] \<Rightarrow> False | c # cs \<Rightarrow> c = CHR ''/'')"

definition endswith_sep :: "string \<Rightarrow> bool" where
  "endswith_sep a = (case rev a of [] \<Rightarrow> False | c # cs \<Rightarrow> c = CHR ''/'')"

definition os_path_join :: "string \<Rightarrow> string \<Rightarrow> string" where
  "os_path_join a b =
     (if startswith_sep b then b
      else if a = [] \<or> endswith_sep a then a @ b
      else a @ ''/'' @ b)"

text \<open>
  \<^verbatim>\<open>open(path, 'w')\<close>: the system raises or returns; either way the file system is
  the one the call left.
\<close>

definition open_w :: "'f kernel \<Rightarrow> string \<Rightarrow> 'f world \<Rightarrow> (py_error + unit) \<times> 'f world" where
  "open_w k path w =
     (case sys_open k (fs w) path of
        (Inl e, f) \<Rightarrow> (Inl e, w\<lparr>fs := f\<rparr>)
      | (Inr u, f) \<Rightarrow> (Inr (), w\<lparr>fs := f\<rparr>))"

text \<open>
  \<^verbatim>\<open>code_file.write(text)\<close> and the close at the end of the \<^verbatim>\<open>with\<close> block:
  the system raises or returns. A write that returned is recorded with the path and the
  text the module passed; what the file holds afterwards is the system's answer.
\<close>

definition file_write ::
  "'f kernel \<Rightarrow> string \<Rightarrow> string \<Rightarrow> 'f world \<Rightarrow> (py_error + unit) \<times> 'f world" where
  "file_write k path text w =
     (case sys_write k (fs w) path text of
        (Inl e, f) \<Rightarrow> (Inl e, w\<lparr>fs := f\<rparr>)
      | (Inr u, f) \<Rightarrow> (Inr (), w\<lparr>fs := f, log := log w @ [FileWrite path text]\<rparr>))"

text \<open>
  \<^verbatim>\<open>print(text)\<close> on the standard output of the module's own process: the system
  raises or returns.
\<close>

definition print :: "'f kernel \<Rightarrow> string \<Rightarrow> 'f world \<Rightarrow> (py_error + unit) \<times> 'f world" where
  "print k text w =
     (case sys_print k (fs w) (clock w) text of
        (Inl e, f) \<Rightarrow> (Inl e, w\<lparr>fs := f\<rparr>)
      | (Inr u, f) \<Rightarrow> (Inr (), w\<lparr>fs := f, log := log w @ [Printed text]\<rparr>))"

text \<open>\<^verbatim>\<open>logger.info(text)\<close>, \<^verbatim>\<open>logger.error(text)\<close>, \<^verbatim>\<open>logger.exception(text)\<close>.\<close>

definition logger :: "'f kernel \<Rightarrow> string \<Rightarrow> string \<Rightarrow> 'f world \<Rightarrow> 'f world" where
  "logger k level text w = w\<lparr>fs := sys_log k (fs w) (clock w) level text\<rparr>"

text \<open>
  \<^verbatim>\<open>subprocess.run(argv, ...)\<close> with the output captured as text and
  \<^verbatim>\<open>check\<close> unset: time passes; a child that came to be is recorded and leaves its
  file system.
\<close>

definition subprocess_run ::
  "'f machine \<Rightarrow> string list \<Rightarrow> 'f world \<Rightarrow> (py_error + completed_process) \<times> 'f world" where
  "subprocess_run m argv w =
     (case m (fs w) (clock w) argv of
        SpawnError e \<Rightarrow> (Inl e, w\<lparr>clock := Suc (clock w)\<rparr>)
      | CaptureError e fs' \<Rightarrow>
          (Inl e, w\<lparr>fs := fs', clock := Suc (clock w), log := log w @ [ChildCreated argv]\<rparr>)
      | Exited rc out err fs' \<Rightarrow>
          (Inr \<lparr>returncode = rc, stdout = out, stderr = err\<rparr>,
           w\<lparr>fs := fs', clock := Suc (clock w), log := log w @ [ChildCreated argv]\<rparr>))"

text \<open>
  \<^verbatim>\<open>check=True\<close>: a return code other than 0 raises \<^verbatim>\<open>CalledProcessError\<close>
  with the command, the output and the standard error of the child.
\<close>

definition subprocess_run_check ::
  "'f machine \<Rightarrow> string list \<Rightarrow> string \<Rightarrow> 'f world
     \<Rightarrow> (py_exception + completed_process) \<times> 'f world" where
  "subprocess_run_check m argv cmd w =
     (case subprocess_run m argv w of
        (Inl e, w') \<Rightarrow> (Inl (Raised e), w')
      | (Inr r, w') \<Rightarrow>
          (if returncode r \<noteq> 0
           then (Inl (CalledProcessError (returncode r) cmd (stdout r) (stderr r)), w')
           else (Inr r, w')))"

subsection \<open>Module initialisation\<close>

text \<open>
  \<^verbatim>\<open>storage_path = os.getenv('STORAGE_PATH', './data_storage/')\<close>, read once when the
  module is imported; \<open>execute_code\<close> takes it as a parameter.
\<close>

definition storage_path_of :: "(string \<rightharpoonup> string) \<Rightarrow> string" where
  "storage_path_of env = getenv env ''STORAGE_PATH'' ''./data_storage/''"

subsection \<open>execute\_code\<close>

definition completion_signal :: string where
  "completion_signal =
     [CHR 0x0A, CHR 0x0A] @ ''If you have completed all tasks, respond with FINAL ANSWER.''"

text \<open>The \<^verbatim>\<open>with\<close> block of lines 44 and 45.\<close>

definition with_open ::
  "'f kernel \<Rightarrow> string \<Rightarrow> string \<Rightarrow> 'f world \<Rightarrow> (py_error + unit) \<times> 'f world" where
  "with_open k code_file_path input_code w =
     (case open_w k code_file_path w of
        (Inl e, w1) \<Rightarrow> (Inl e, w1)
      | (Inr u, w1) \<Rightarrow> file_write k code_file_path input_code w1)"

text \<open>
  Lines 44 to 47: the \<^verbatim>\<open>with\<close> block and, when it raised nothing, the log message
  that follows it. The world it returns is the one the child process starts in.
\<close>

definition write_code_file ::
  "'f kernel \<Rightarrow> string \<Rightarrow> string \<Rightarrow> 'f world \<Rightarrow> (py_error + unit) \<times> 'f world" where
  "write_code_file k code_file_path input_code w =
     (case with_open k code_file_path input_code w of
        (Inl e, w1) \<Rightarrow> (Inl e, w1)
      | (Inr u, w1) \<Rightarrow>
          (Inr (), logger k ''info'' (''Code written to file: '' @ code_file_path) w1))"

text \<open>
  The body of the \<^verbatim>\<open>try\<close> statement. When a statement raises (the write of the
  file, the run of the child, the print of its output), the exception leaves the body
  together with the binding of the local variable \<^verbatim>\<open>code_file_path\<close> at that point,
  which the handler reads. A dictionary is returned only after the print returned.
\<close>

definition execute_code_try ::
  "'f kernel \<Rightarrow> 'f machine \<Rightarrow> string \<Rightarrow> string \<Rightarrow> string \<Rightarrow> 'f world
     \<Rightarrow> ((py_error \<times> string option) + py_dict) \<times> 'f world" where
  "execute_code_try k m storage_path input_code codefile_name w =
     (let code_file_path = os_path_join storage_path codefile_name in
      case write_code_file k code_file_path input_code w of
        (Inl e, w1) \<Rightarrow> (Inl (e, Some code_file_path), w1)
      | (Inr u, w1) \<Rightarrow>
          (case subprocess_run m [''python'', code_file_path] w1 of
             (Inl e, w2) \<Rightarrow> (Inl (e, Some code_file_path), w2)
           | (Inr result, w2) \<Rightarrow>
               (let output = stdout result; error_output = stderr result in
                if returncode result = 0
                then (case print k output (logger k ''info'' ''Code executed successfully'' w2) of
                        (Inl e, w3) \<Rightarrow> (Inl (e, Some code_file_path), w3)
                      | (Inr u, w3) \<Rightarrow>
                          (Inr [(''result'', ''Code executed successfully''),
                                (''output'', output @ completion_signal),
                                (''file_path'', code_file_path)],
                           w3))
                else (case print k error_output
                             (logger k ''error'' (''Code execution failed: '' @ error_output) w2) of
                        (Inl e, w3) \<Rightarrow> (Inl (e, Some code_file_path), w3)
                      | (Inr u, w3) \<Rightarrow>
                          (Inr [(''result'', ''Failed to execute''),
                                (''error'', error_output),
                                (''file_path'', code_file_path)],
                           w3)))))"

text \<open>
  The whole function: \<^verbatim>\<open>except Exception as e\<close> logs and builds the third dictionary from
  \<^verbatim>\<open>str(e)\<close> and \<^verbatim>\<open>code_file_path\<close>; reading an unbound local variable would
  raise in the handler, and that exception would reach the caller.
\<close>

definition execute_code ::
  "'f kernel \<Rightarrow> 'f machine \<Rightarrow> string \<Rightarrow> string \<Rightarrow> string \<Rightarrow> 'f world
     \<Rightarrow> (py_error + py_dict) \<times> 'f world" where
  "execute_code k m storage_path input_code codefile_name w =
     (case execute_code_try k m storage_path input_code codefile_name w of
        (Inr d, w') \<Rightarrow> (Inr d, w')
      | (Inl (e, None), w') \<Rightarrow>
          (Inl (PyError ''UnboundLocalError''
                  ''cannot access local variable 'code_file_path' where it is not associated with a value''),
           logger k ''exception'' ''An error occurred while executing code'' w')
      | (Inl (e, Some code_file_path), w') \<Rightarrow>
          (Inr [(''result'', ''Error occurred''),
                (''error'', err_str e),
                (''file_path'', code_file_path)],
           logger k ''exception'' ''An error occurred while executing code'' w'))"

subsection \<open>execute\_command\<close>

text \<open>Lines 98 to 104: the command line handed to the shell.\<close>

definition full_command :: "(string \<rightharpoonup> string) \<Rightarrow> string \<Rightarrow> string" where
  "full_command env command =
     (let conda_path = getenv env ''CONDA_PATH'' ''/home/e806/anaconda3'';
          conda_env = getenv env ''CONDA_ENV'' ''dcbot'';
          source = ''source '' @ conda_path @ ''/etc/profile.d/conda.sh'';
          conda_activate = ''conda activate '' @ conda_env
      in source @ '' && '' @ conda_activate @ '' && '' @ command)"

text \<open>
  \<^verbatim>\<open>shell=True\<close> with \<^verbatim>\<open>executable="/bin/bash"\<close> runs the argument vector
  \<^verbatim>\<open>["/bin/bash", "-c", full_command]\<close>. Only \<^verbatim>\<open>CalledProcessError\<close> is handled;
  any other exception reaches the caller. The world \<open>w\<close> is the one the shell starts in;
  nothing stated about this function depends on what the logger does to the file system,
  so its three log messages are no step here.
\<close>

definition execute_command ::
  "'f machine \<Rightarrow> string \<Rightarrow> 'f world \<Rightarrow> (py_exception + string) \<times> 'f world" where
  "execute_command m command w =
     (let cmd = full_command (environ w) command in
      case subprocess_run_check m [''/bin/bash'', ''-c'', cmd] cmd w of
        (Inr result, w') \<Rightarrow> (Inr (stdout result), w')
      | (Inl (CalledProcessError rc c out err), w') \<Rightarrow> (Inr (''Error: '' @ err), w')
      | (Inl (Raised e), w') \<Rightarrow> (Inl (Raised e), w'))"

subsection \<open>What a call did\<close>

text \<open>The events a call added to the log, and how many of them wrote a file or created a child.\<close>

definition new_events :: "'f world \<Rightarrow> 'f world \<Rightarrow> event list" where
  "new_events w w' = drop (length (log w)) (log w')"

definition file_writes :: "event list \<Rightarrow> nat" where
  "file_writes evs = length (filter is_file_write evs)"

definition children :: "event list \<Rightarrow> nat" where
  "children evs = length (filter is_child_created evs)"

text \<open>
  The file system after a call of the machine, whether a child process came to be, and
  what \<^verbatim>\<open>subprocess.run\<close> hands to the module.
\<close>

fun outcome_fs :: "'f \<Rightarrow> 'f proc_outcome \<Rightarrow> 'f" where
  "outcome_fs f (SpawnError e) = f"
| "outcome_fs f (CaptureError e f') = f'"
| "outcome_fs f (Exited rc out err f') = f'"

fun child_ran :: "'f proc_outcome \<Rightarrow> bool" where
  "child_ran (SpawnError e) = False"
| "child_ran (CaptureError e f') = True"
| "child_ran (Exited rc out err f') = True"

fun outcome_result :: "'f proc_outcome \<Rightarrow> py_error + completed_process" where
  "outcome_result (SpawnError e) = Inl e"
| "outcome_result (CaptureError e f') = Inl e"
| "outcome_result (Exited rc out err f') = Inr \<lparr>returncode = rc, stdout = out, stderr = err\<rparr>"


text \<open>
  A script \<open>body\<close> executes deterministically at \<open>path\<close> when every run of the
  interpreter on the path, in whatever file system holds the body there and at whatever
  time, hands the same result to the module: nothing but the text of the script decides
  it. It has no side effects when a run leaves the file system as it found it. Printing
  is reproducible when the time and the file system do not decide whether a text can be
  printed.
\<close>

definition runs_deterministically ::
  "'f kernel \<Rightarrow> 'f machine \<Rightarrow> string \<Rightarrow> string \<Rightarrow> bool" where
  "runs_deterministically k m path body \<longleftrightarrow>
     (\<forall>f f' t t'. sys_read k f path = Some body \<longrightarrow> sys_read k f' path = Some body \<longrightarrow>
        outcome_result (m f t [''python'', path]) = outcome_result (m f' t' [''python'', path]))"

definition has_no_side_effects :: "'f machine \<Rightarrow> string \<Rightarrow> bool" where
  "has_no_side_effects m path \<longleftrightarrow>
     (\<forall>f t. outcome_fs f (m f t [''python'', path]) = f)"


subsection \<open>A concrete system\<close>

text \<open>
  A small file system for the examples: regular files with their content, the files the
  user may not open for writing, and whether the creation mask takes the write
  permission from every file that is created (\<^verbatim>\<open>umask 0222\<close>). The storage directory
  \<^verbatim>\<open>./data_storage/\<close> exists (the module creates it when it is imported), and
  \<^verbatim>\<open>/dev/null\<close> is the device that swallows what is written to it.
\<close>

record disk =
  files :: "string \<rightharpoonup> string"
  read_only :: "string set"
  umask_0222 :: bool

definition quoted :: "string \<Rightarrow> string" where
  "quoted s = [CHR 0x27] @ s @ [CHR 0x27]"

definition is_a_directory :: "string \<Rightarrow> py_error" where
  "is_a_directory path =
     PyError ''IsADirectoryError'' (''[Errno 21] Is a directory: '' @ quoted path)"

definition permission_denied :: "string \<Rightarrow> py_error" where
  "permission_denied path =
     PyError ''PermissionError'' (''[Errno 13] Permission denied: '' @ quoted path)"

definition no_space_left :: py_error where
  "no_space_left = PyError ''OSError'' ''[Errno 28] No space left on device''"

definition posix_open :: "disk \<Rightarrow> string \<Rightarrow> (py_error + unit) \<times> disk" where
  "posix_open d path =
     (if path = ''./data_storage/'' then (Inl (is_a_directory path), d)
      else if path = ''/dev/null'' then (Inr (), d)
      else if path \<in> read_only d then (Inl (permission_denied path), d)
      else (Inr (),
            d\<lparr>files := (files d)(path \<mapsto> []),
              read_only := (if files d path = None \<and> umask_0222 d
                            then insert path (read_only d) else read_only d)\<rparr>))"

definition posix_write :: "disk \<Rightarrow> string \<Rightarrow> string \<Rightarrow> (py_error + unit) \<times> disk" where
  "posix_write d path text =
     (if path = ''/dev/null'' then (Inr (), d)
      else (Inr (), d\<lparr>files := (files d)(path \<mapsto> text)\<rparr>))"

definition posix_read :: "disk \<Rightarrow> string \<Rightarrow> string option" where
  "posix_read d path = (if path = ''/dev/null'' then Some [] else files d path)"

text \<open>The system with a standard output that takes every text and a log kept elsewhere.\<close>

definition posix :: "disk kernel" where
  "posix =
     \<lparr>sys_open = posix_open,
      sys_write = posix_write,
      sys_print = (\<lambda>d t s. (Inr (), d)),
      sys_log = (\<lambda>d t l s. d),
      sys_read = posix_read\<rparr>"

text \<open>The same system with the standard output of the module on a full device.\<close>

definition posix_stdout_full :: "disk kernel" where
  "posix_stdout_full = posix\<lparr>sys_print := (\<lambda>d t s. (Inl no_space_left, d))\<rparr>"

text \<open>
  The same system with the standard output of the module on a pipe whose reader goes away
  after the first call.
\<close>

definition broken_pipe :: py_error where
  "broken_pipe = PyError ''BrokenPipeError'' ''[Errno 32] Broken pipe''"

definition posix_stdout_closes :: "disk kernel" where
  "posix_stdout_closes =
     posix\<lparr>sys_print := (\<lambda>d t s. if t \<le> 1 then (Inr (), d) else (Inl broken_pipe, d))\<rparr>"

definition disk_init :: disk where
  "disk_init = \<lparr>files = Map.empty, read_only = {}, umask_0222 = False\<rparr>"

definition world_init :: "disk world" where
  "world_init = \<lparr>fs = disk_init, environ = Map.empty, clock = 0, log = []\<rparr>"

definition world_umask :: "disk world" where
  "world_umask = world_init\<lparr>fs := disk_init\<lparr>umask_0222 := True\<rparr>\<rparr>"

definition conda_environ :: "string \<rightharpoonup> string" where
  "conda_environ = [''CONDA_PATH'' \<mapsto> ''/opt/conda'', ''CONDA_ENV'' \<mapsto> ''analysis'']"

text \<open>A machine whose every child prints \<open>out\<close> and \<open>err\<close>, exits with \<open>rc\<close> and touches no file.\<close>

definition exits_with :: "int \<Rightarrow> string \<Rightarrow> string \<Rightarrow> 'f machine" where
  "exits_with rc out err = (\<lambda>f t argv. Exited rc out err f)"

text \<open>
  A machine on which \<^verbatim>\<open>python\<close> is not installed, one whose scripts delete their own
  file (\<^verbatim>\<open>os.remove(__file__)\<close>), and one whose scripts make their own file read-only
  (\<^verbatim>\<open>os.chmod(__file__, 0o444)\<close>).
\<close>

definition no_interpreter :: "'f machine" where
  "no_interpreter =
     (\<lambda>f t argv. SpawnError (PyError ''FileNotFoundError''
        (''[Errno 2] No such file or directory: '' @ quoted ''python'')))"



text \<open>A machine whose scripts print the time of the run.\<close>

definition prints_the_time :: "'f machine" where
  "prints_the_time = (\<lambda>f t argv. Exited 0 (if t = 0 then ''0'' else ''later'') [] f)"

section \<open>Properties\<close>

subsection \<open>Evaluation rules\<close>

lemmas example_defs =
  posix_def posix_stdout_full_def posix_stdout_closes_def broken_pipe_def posix_open_def posix_write_def posix_read_def
  exits_with_def world_init_def world_umask_def disk_init_def is_a_directory_def
  permission_denied_def no_space_left_def quoted_def os_path_join_def startswith_sep_def
  endswith_sep_def

lemmas run_defs =
  execute_code_def execute_code_try_def write_code_file_def with_open_def open_w_def
  file_write_def print_def logger_def subprocess_run_def Let_def

lemma storage_path_default: "storage_path_of Map.empty = ''./data_storage/''"
  by (simp add: storage_path_of_def getenv_def)



lemma join_dev_null: "os_path_join ''./data_storage/'' ''/dev/null'' = ''/dev/null''"
  by (simp add: example_defs)



subsection \<open>Writing the code file\<close>

lemma write_code_file_log:
  "log (snd (write_code_file k p s w)) =
     log w @ (if fst (write_code_file k p s w) = Inr () then [FileWrite p s] else [])"
  by (simp add: write_code_file_def with_open_def open_w_def file_write_def logger_def
      split: prod.splits sum.splits)

lemma write_code_file_clock: "clock (snd (write_code_file k p s w)) = clock w"
  by (simp add: write_code_file_def with_open_def open_w_def file_write_def logger_def
      split: prod.splits sum.splits)

lemma write_a_py:
  "write_code_file posix (os_path_join ''./data_storage/'' ''a.py'') body world_init
     = (Inr (), world_init\<lparr>fs := disk_init\<lparr>files := [''./data_storage/a.py'' \<mapsto> body]\<rparr>,
                           log := [FileWrite ''./data_storage/a.py'' body]\<rparr>)"
  by (simp add: write_code_file_def with_open_def open_w_def file_write_def logger_def
      example_defs)


subsection \<open>Running and printing\<close>



lemma subprocess_run_log:
  "log (snd (subprocess_run m argv w)) =
     log w @ (if child_ran (m (fs w) (clock w) argv) then [ChildCreated argv] else [])"
  by (simp add: subprocess_run_def split: proc_outcome.splits)



lemma printed_events:
  "log (snd (print k text w)) =
     log w @ (if fst (print k text w) = Inr () then [Printed text] else [])"
  by (simp add: print_def split: prod.splits sum.splits)

subsection \<open>The state after a call\<close>

lemma logger_log: "log (logger k l s w) = log w"
  by (simp add: logger_def)

lemma logger_clock: "clock (logger k l s w) = clock w"
  by (simp add: logger_def)

lemma write_code_file_logD:
  "write_code_file k p s w = (r, w1) \<Longrightarrow>
     log w1 = log w @ (if r = Inr () then [FileWrite p s] else [])"
  using write_code_file_log [of k p s w] by simp

lemma subprocess_run_logD:
  "subprocess_run m argv w = (r, w2) \<Longrightarrow>
     log w2 = log w @ (if child_ran (m (fs w) (clock w) argv) then [ChildCreated argv] else [])"
  using subprocess_run_log [of m argv w] by simp

lemma printed_eventsD:
  "print k s w = (r, w3) \<Longrightarrow> log w3 = log w @ (if r = Inr () then [Printed s] else [])"
  using printed_events [of k s w] by simp

lemma execute_code_try_log:
  "\<exists>printed.
     log (snd (execute_code_try k m sp code name w)) =
       log w @
       (case write_code_file k (os_path_join sp name) code w of
          (Inl e, w1) \<Rightarrow> []
        | (Inr u, w1) \<Rightarrow>
            FileWrite (os_path_join sp name) code #
            (if child_ran (m (fs w1) (clock w1) [''python'', os_path_join sp name])
             then ChildCreated [''python'', os_path_join sp name] # printed else [])) \<and>
     filter is_file_write printed = [] \<and> filter is_child_created printed = []"
proof (cases "write_code_file k (os_path_join sp name) code w")
  case (Pair r w1)
  note written = Pair
  show ?thesis
  proof (cases r)
    case (Inl e)
    with written write_code_file_logD [OF written] show ?thesis
      by (intro exI [of _ "[]"]) (simp add: execute_code_try_def Let_def)
  next
    case (Inr u)
    note ok = Inr
    obtain r2 w2 where run: "subprocess_run m [''python'', os_path_join sp name] w1 = (r2, w2)"
      by (cases "subprocess_run m [''python'', os_path_join sp name] w1")
    show ?thesis
    proof (cases r2)
      case (Inl e)
      then have "\<not> (\<exists>rc out err f'. m (fs w1) (clock w1) [''python'', os_path_join sp name]
                     = Exited rc out err f')"
        using run by (auto simp: subprocess_run_def)
      with Inl written ok run write_code_file_logD [OF written] subprocess_run_logD [OF run]
      show ?thesis
        by (intro exI [of _ "[]"]) (simp add: execute_code_try_def Let_def)
    next
      case (Inr result)
      then have ran: "child_ran (m (fs w1) (clock w1) [''python'', os_path_join sp name])"
        using run by (auto simp: subprocess_run_def split: proc_outcome.splits)
      show ?thesis
      proof (cases "returncode result = 0")
        case True
        obtain r3 w3 where pr: "print k (stdout result)
            (logger k ''info'' ''Code executed successfully'' w2) = (r3, w3)"
          by (cases "print k (stdout result)
            (logger k ''info'' ''Code executed successfully'' w2)")
        from Inr written ok run ran True pr
          write_code_file_logD [OF written] subprocess_run_logD [OF run] printed_eventsD [OF pr]
        show ?thesis
          by (intro exI [of _ "if r3 = Inr () then [Printed (stdout result)] else []"])
            (simp add: execute_code_try_def Let_def logger_log split: sum.splits)
      next
        case False
        obtain r3 w3 where pr: "print k (stderr result)
            (logger k ''error'' (''Code execution failed: '' @ stderr result) w2) = (r3, w3)"
          by (cases "print k (stderr result)
            (logger k ''error'' (''Code execution failed: '' @ stderr result) w2)")
        from Inr written ok run ran False pr
          write_code_file_logD [OF written] subprocess_run_logD [OF run] printed_eventsD [OF pr]
        show ?thesis
          by (intro exI [of _ "if r3 = Inr () then [Printed (stderr result)] else []"])
            (simp add: execute_code_try_def Let_def logger_log split: sum.splits)
      qed
    qed
  qed
qed

lemma execute_code_log_try:
  "log (snd (execute_code k m sp code name w)) = log (snd (execute_code_try k m sp code name w))"
  by (simp add: execute_code_def logger_log split: prod.splits sum.splits option.splits)

lemma execute_command_log:
  "log (snd (execute_command m command w)) =
     log w @
     (if child_ran (m (fs w) (clock w) [''/bin/bash'', ''-c'', full_command (environ w) command])
      then [ChildCreated [''/bin/bash'', ''-c'', full_command (environ w) command]]
      else [])"
  by (simp add: execute_command_def subprocess_run_check_def subprocess_run_def Let_def
      split: proc_outcome.splits)

subsection \<open>The handler of execute\_code\<close>





subsection \<open>The file after a call\<close>




subsection \<open>C1: a command that exits with a nonzero code\<close>




subsection \<open>C2: every exception of execute\_code is caught\<close>



subsection \<open>C3: the code file after a call\<close>




subsection \<open>C4: a script that exits with a nonzero code\<close>




subsection \<open>C5: a script that exits with code 0\<close>




subsection \<open>C6: file writes and child processes per call\<close>

text \<open>
  C6 as the specification states it: every call creates exactly one child process, and
  \<open>execute_code\<close> performs exactly one file write, also on the error paths. With the
  empty name the file cannot be opened: nothing is written and no child is created. On a
  machine without the interpreter the file is written and no child is created.
\<close>

theorem effects_per_call_counterexample:
  "children (new_events world_init
      (snd (execute_code posix (exits_with 0 '''' '''') ''./data_storage/'' ''pass'' ''''
              world_init))) = 0 \<and>
   file_writes (new_events world_init
      (snd (execute_code posix (exits_with 0 '''' '''') ''./data_storage/'' ''pass'' ''''
              world_init))) = 0 \<and>
   children (new_events world_init
      (snd (execute_code posix no_interpreter ''./data_storage/'' ''pass'' ''a.py''
              world_init))) = 0 \<and>
   file_writes (new_events world_init
      (snd (execute_code posix no_interpreter ''./data_storage/'' ''pass'' ''a.py''
              world_init))) = 1"
  by (simp add: run_defs no_interpreter_def new_events_def children_def file_writes_def
      example_defs)

text \<open>
  C6, amended: a call of \<open>execute_code\<close> performs at most one file write and creates at
  most one child process; it performs the write exactly when opening and writing the file
  raise nothing, and creates the child exactly when the write succeeded and the spawn did
  not fail. A call of \<open>execute_command\<close> writes no file and creates at most one child
  process, exactly one unless the spawn fails.
\<close>

theorem effects_per_call:
  "file_writes (new_events w (snd (execute_code k m sp code name w))) \<le> 1 \<and>
   children (new_events w (snd (execute_code k m sp code name w))) \<le> 1 \<and>
   (file_writes (new_events w (snd (execute_code k m sp code name w))) = 1)
     = (fst (write_code_file k (os_path_join sp name) code w) = Inr ()) \<and>
   (children (new_events w (snd (execute_code k m sp code name w))) = 1)
     = (\<exists>w1. write_code_file k (os_path_join sp name) code w = (Inr (), w1) \<and>
             child_ran (m (fs w1) (clock w1) [''python'', os_path_join sp name])) \<and>
   file_writes (new_events w (snd (execute_command m command w))) = 0 \<and>
   children (new_events w (snd (execute_command m command w)))
     = (if child_ran (m (fs w) (clock w)
                        [''/bin/bash'', ''-c'', full_command (environ w) command])
        then 1 else 0)"
proof -
  obtain printed where
    events: "new_events w (snd (execute_code k m sp code name w)) =
       (case write_code_file k (os_path_join sp name) code w of
          (Inl e, w1) \<Rightarrow> []
        | (Inr u, w1) \<Rightarrow>
            FileWrite (os_path_join sp name) code #
            (if child_ran (m (fs w1) (clock w1) [''python'', os_path_join sp name])
             then ChildCreated [''python'', os_path_join sp name] # printed else []))"
    and other: "filter is_file_write printed = []" "filter is_child_created printed = []"
    using execute_code_try_log [of k m sp code name w]
    by (auto simp: new_events_def execute_code_log_try)
  show ?thesis
  proof (intro conjI)
    let ?evs = "new_events w (snd (execute_code k m sp code name w))"
    show "file_writes ?evs \<le> 1"
      using other by (simp add: events file_writes_def split: prod.splits sum.splits)
    show "children ?evs \<le> 1"
      using other by (simp add: events children_def split: prod.splits sum.splits)
    show "(file_writes ?evs = 1)
        = (fst (write_code_file k (os_path_join sp name) code w) = Inr ())"
      using other by (simp add: events file_writes_def split: prod.splits sum.splits)
    show "(children ?evs = 1)
       = (\<exists>w1. write_code_file k (os_path_join sp name) code w = (Inr (), w1) \<and>
               child_ran (m (fs w1) (clock w1) [''python'', os_path_join sp name]))"
      using other by (simp add: events children_def split: prod.splits sum.splits)
    show "file_writes (new_events w (snd (execute_command m command w))) = 0"
      by (simp add: new_events_def execute_command_log file_writes_def)
    show "children (new_events w (snd (execute_command m command w)))
       = (if child_ran (m (fs w) (clock w)
                          [''/bin/bash'', ''-c'', full_command (environ w) command])
          then 1 else 0)"
      by (simp add: new_events_def execute_command_log children_def)
  qed
qed

theorem effects_per_call_witness:
  "file_writes (new_events world_init
      (snd (execute_code posix (exits_with 0 '''' '''') ''./data_storage/'' ''pass'' ''a.py''
              world_init))) = 1 \<and>
   children (new_events world_init
      (snd (execute_code posix (exits_with 0 '''' '''') ''./data_storage/'' ''pass'' ''a.py''
              world_init))) = 1 \<and>
   file_writes (new_events world_init
      (snd (execute_command (exits_with 0 ''hello'' '''') ''echo hello'' world_init))) = 0 \<and>
   children (new_events world_init
      (snd (execute_command (exits_with 0 ''hello'' '''') ''echo hello'' world_init))) = 1"
  using effects_per_call
      [of world_init posix "exits_with 0 '''' ''''" "''./data_storage/''" "''pass''" "''a.py''"]
    effects_per_call
      [of world_init posix "exits_with 0 ''hello'' ''''" _ _ _ "''echo hello''"]
    write_a_py [of "''pass''"]
  by (simp add: exits_with_def)

subsection \<open>C7: the command line that is executed\<close>

text \<open>
  C7: the command line \<open>execute_command\<close> hands to the shell is
  \<^verbatim>\<open>source <conda_path>/etc/profile.d/conda.sh && conda activate <conda_env> && <text>\<close>,
  with \<^verbatim>\<open>CONDA_PATH\<close> and \<^verbatim>\<open>CONDA_ENV\<close> read from the environment at the time of
  the call (defaults \<^verbatim>\<open>/home/e806/anaconda3\<close> and \<^verbatim>\<open>dcbot\<close>); the only child a call
  creates is \<^verbatim>\<open>/bin/bash -c\<close> with that command line.
\<close>

theorem execute_command_runs_activated_command:
  "full_command (environ w) command =
     ''source '' @ getenv (environ w) ''CONDA_PATH'' ''/home/e806/anaconda3'' @
     ''/etc/profile.d/conda.sh && conda activate '' @
     getenv (environ w) ''CONDA_ENV'' ''dcbot'' @ '' && '' @ command \<and>
   filter is_child_created (new_events w (snd (execute_command m command w))) =
     (if child_ran (m (fs w) (clock w)
                      [''/bin/bash'', ''-c'', full_command (environ w) command])
      then [ChildCreated [''/bin/bash'', ''-c'', full_command (environ w) command]]
      else [])"
  by (simp add: full_command_def Let_def new_events_def execute_command_log)

theorem execute_command_runs_activated_command_witness:
  "full_command conda_environ ''echo hello'' =
     ''source /opt/conda/etc/profile.d/conda.sh && conda activate analysis && echo hello'' \<and>
   full_command Map.empty ''echo hello'' =
     ''source /home/e806/anaconda3/etc/profile.d/conda.sh && conda activate dcbot && echo hello'' \<and>
   filter is_child_created
     (new_events (world_init\<lparr>environ := conda_environ\<rparr>)
        (snd (execute_command (exits_with 0 ''hello'' '''') ''echo hello''
                (world_init\<lparr>environ := conda_environ\<rparr>)))) =
     [ChildCreated [''/bin/bash'', ''-c'',
        ''source /opt/conda/etc/profile.d/conda.sh && conda activate analysis && echo hello'']]"
  using execute_command_runs_activated_command
      [of "world_init\<lparr>environ := conda_environ\<rparr>" "''echo hello''" "exits_with 0 ''hello'' ''''"]
    execute_command_runs_activated_command
      [of world_init "''echo hello''" "exits_with 0 ''hello'' ''''"]
  by (simp add: getenv_def conda_environ_def exits_with_def world_init_def)

subsection \<open>C8: two submissions under one name\<close>




subsection \<open>C9: submitting the same script twice\<close>




text \<open>
  Without determinism the two results can differ: a script that prints the time has no
  side effects, both submissions write the file, and its second run prints something
  else.
\<close>

lemma execute_code_twice_needs_determinism:
  "has_no_side_effects (prints_the_time :: disk machine)
     (os_path_join ''./data_storage/'' ''a.py'') \<and>
   fst (execute_code posix prints_the_time ''./data_storage/''
          ''import time; print(time.time())'' ''a.py''
          (snd (execute_code posix prints_the_time ''./data_storage/''
                  ''import time; print(time.time())'' ''a.py'' world_init)))
     \<noteq> fst (execute_code posix prints_the_time ''./data_storage/''
              ''import time; print(time.time())'' ''a.py'' world_init)"
  by (simp add: has_no_side_effects_def run_defs prints_the_time_def example_defs)

text \<open>
  Without reproducible printing the two results can differ as well: when the reader of the
  module's standard output goes away between the calls, the first submission reports
  success and the \<^verbatim>\<open>print\<close> of the second raises.
\<close>

lemma execute_code_twice_needs_reproducible_printing:
  "runs_deterministically posix_stdout_closes (exits_with 0 '''' '''' :: disk machine)
     (os_path_join ''./data_storage/'' ''a.py'') ''pass'' \<and>
   fst (execute_code posix_stdout_closes (exits_with 0 '''' '''') ''./data_storage/'' ''pass''
          ''a.py'' world_init)
     = Inr [(''result'', ''Code executed successfully''),
            (''output'', completion_signal),
            (''file_path'', ''./data_storage/a.py'')] \<and>
   fst (execute_code posix_stdout_closes (exits_with 0 '''' '''') ''./data_storage/'' ''pass''
          ''a.py''
          (snd (execute_code posix_stdout_closes (exits_with 0 '''' '''') ''./data_storage/''
                  ''pass'' ''a.py'' world_init)))
     = Inr [(''result'', ''Error occurred''),
            (''error'', ''[Errno 32] Broken pipe''),
            (''file_path'', ''./data_storage/a.py'')]"
  by (simp add: runs_deterministically_def run_defs example_defs)

subsection \<open>C10: the three dictionaries\<close>

text \<open>
  C10: for every input \<open>execute_code\<close> returns a dictionary whose \<^verbatim>\<open>result\<close> is one of
  the three fixed strings; the keys of the success dictionary are exactly
  \<^verbatim>\<open>result\<close>, \<^verbatim>\<open>output\<close> and \<^verbatim>\<open>file_path\<close>, and the keys of the two error
  dictionaries are exactly \<^verbatim>\<open>result\<close>, \<^verbatim>\<open>error\<close> and \<^verbatim>\<open>file_path\<close>.
\<close>

theorem execute_code_result_shape:
  "\<exists>d. fst (execute_code k m sp code name w) = Inr d \<and>
     (map_of d ''result'' = Some ''Code executed successfully'' \<and>
        map fst d = [''result'', ''output'', ''file_path''] \<or>
      map_of d ''result'' = Some ''Failed to execute'' \<and>
        map fst d = [''result'', ''error'', ''file_path''] \<or>
      map_of d ''result'' = Some ''Error occurred'' \<and>
        map fst d = [''result'', ''error'', ''file_path''])"
  by (simp add: execute_code_def execute_code_try_def Let_def
      split: prod.splits sum.splits option.splits)

theorem execute_code_result_shape_witness:
  "\<exists>d. fst (execute_code posix (exits_with 0 ''ok'' '''') ''./data_storage/''
              ''import sys; sys.stdout.write('ok')'' ''a.py'' world_init) = Inr d \<and>
     (map_of d ''result'' = Some ''Code executed successfully'' \<and>
        map fst d = [''result'', ''output'', ''file_path''] \<or>
      map_of d ''result'' = Some ''Failed to execute'' \<and>
        map fst d = [''result'', ''error'', ''file_path''] \<or>
      map_of d ''result'' = Some ''Error occurred'' \<and>
        map fst d = [''result'', ''error'', ''file_path''])"
  by (rule execute_code_result_shape)

end
